theory Spec2Isabelle
  imports Main "HOL-Library.Sublist"
begin

section \<open>The validation server of \<^verbatim>\<open>src/language-server/server.py\<close>\<close>

text \<open>
  The module has one class, \<^verbatim>\<open>LanguageServer\<close>, with the path check
  \<^verbatim>\<open>validate_path\<close> and the entry point \<^verbatim>\<open>validate_file\<close>, a static table
  \<^verbatim>\<open>LANGUAGE_CONFIGS\<close>, and the tool handler \<^verbatim>\<open>handle_call_tool\<close> that formats a
  \<^verbatim>\<open>ValidationResult\<close> as text. Each is embedded below as a total function. What the
  Python does beyond returning a value is explicit: an exception is the left summand of
  the result, and the calls that reach the file system or the logger are listed, in
  order, in a second component.
\<close>

subsection \<open>Exceptions\<close>

text \<open>
  The exceptions the module raises or may receive from \<^verbatim>\<open>pathlib\<close>, each with the text
  \<^verbatim>\<open>str(e)\<close> gives. \<^verbatim>\<open>ValueError\<close> is what \<^verbatim>\<open>validate_path\<close> and
  \<^verbatim>\<open>handle_call_tool\<close> raise themselves; \<^verbatim>\<open>IndexError\<close> is what a list subscript out
  of range raises; \<^verbatim>\<open>OSError\<close> and \<^verbatim>\<open>RuntimeError\<close> are what
  \<^verbatim>\<open>Path.resolve\<close> and \<^verbatim>\<open>Path.exists\<close> may raise (a permission error, a symlink
  loop). All four are subclasses of \<^verbatim>\<open>Exception\<close>.
\<close>

datatype exn =
    ValueError string
  | IndexError string
  | OSError string
  | RuntimeError string

fun str_exn :: "exn \<Rightarrow> string" where
  "str_exn (ValueError m) = m"
| "str_exn (IndexError m) = m"
| "str_exn (OSError m) = m"
| "str_exn (RuntimeError m) = m"

subsection \<open>Strings\<close>

text \<open>
  A Python \<^verbatim>\<open>str\<close> is modelled as a \<^typ>\<open>string\<close>. \<^verbatim>\<open>str.lower\<close> is modelled on the
  ASCII letters, which is what it does on an ASCII string; every key of
  \<^verbatim>\<open>LANGUAGE_CONFIGS\<close> is ASCII.
  Python also lowers the cased letters beyond ASCII, which the model leaves as they are.
  No lookup in the table differs for that: the only character beyond ASCII that Python
  lowers to an ASCII letter is the Kelvin sign, to \<open>k\<close>, and no key holds a \<open>k\<close>. The
  one difference is the spelling of such a suffix in the message "Unsupported file type".
\<close>

definition lower_char :: "char \<Rightarrow> char" where
  "lower_char c =
     (case map_of (zip ''ABCDEFGHIJKLMNOPQRSTUVWXYZ'' ''abcdefghijklmnopqrstuvwxyz'') c of
        None \<Rightarrow> c
      | Some l \<Rightarrow> l)"

definition str_lower :: "string \<Rightarrow> string" where
  "str_lower s = map lower_char s"

text \<open>\<^verbatim>\<open>s.rfind(c)\<close>: the highest index at which \<open>c\<close> stands in \<open>s\<close>, or \<open>-1\<close>.\<close>

definition rfind :: "string \<Rightarrow> char \<Rightarrow> int" where
  "rfind s c =
     (case filter (\<lambda>i. s ! i = c) (rev [0..<length s]) of
        [] \<Rightarrow> - 1
      | i # _ \<Rightarrow> int i)"

text \<open>\<^verbatim>\<open>sep.join(xs)\<close>.\<close>

fun join :: "string \<Rightarrow> string list \<Rightarrow> string" where
  "join sep [] = []"
| "join sep [x] = x"
| "join sep (x # y # ys) = x @ sep @ join sep (y # ys)"

text \<open>\<^verbatim>\<open>str(n)\<close> for an integer: decimal digits, with a minus sign when negative.\<close>

definition digit_char :: "nat \<Rightarrow> char" where
  "digit_char d = ''0123456789'' ! d"

fun str_nat :: "nat \<Rightarrow> string" where
  "str_nat n = (if n < 10 then [digit_char n] else str_nat (n div 10) @ [digit_char (n mod 10)])"

definition str_int :: "int \<Rightarrow> string" where
  "str_int i = (if i < 0 then CHR ''-'' # str_nat (nat (- i)) else str_nat (nat i))"

text \<open>
  \<^verbatim>\<open>xs[i]\<close> on a Python list: a negative index counts from the end, and an index outside
  \<open>-len(xs) .. len(xs) - 1\<close> raises \<^verbatim>\<open>IndexError\<close>.
\<close>

definition py_getitem :: "'a list \<Rightarrow> int \<Rightarrow> exn + 'a" where
  "py_getitem xs i =
     (if 0 \<le> i \<and> i < int (length xs) then Inr (xs ! nat i)
      else if i < 0 \<and> - int (length xs) \<le> i then Inr (xs ! nat (int (length xs) + i))
      else Inl (IndexError ''list index out of range''))"

text \<open>Truthiness of an \<^verbatim>\<open>Optional[str]\<close>: neither \<^verbatim>\<open>None\<close> nor the empty string.\<close>

fun truthy :: "string option \<Rightarrow> bool" where
  "truthy None = False"
| "truthy (Some s) = (s \<noteq> [])"

subsection \<open>Paths\<close>

text \<open>
  A \<^verbatim>\<open>pathlib.PosixPath\<close>: its anchor (\<^verbatim>\<open>/\<close> for an absolute path, empty for a relative
  one) and the components after it. Two paths are equal when both are, which is how
  \<^verbatim>\<open>PosixPath.__eq__\<close> compares.
\<close>

datatype path = PosixPath (anchor: string) (names: "string list")

text \<open>\<^verbatim>\<open>str(path)\<close>.\<close>

definition str_path :: "path \<Rightarrow> string" where
  "str_path p =
     (if anchor p = [] \<and> names p = [] then ''.''
      else anchor p @ join ''/'' (names p))"

text \<open>
  \<^verbatim>\<open>path.parents\<close>: entry \<open>i\<close> is the path cut after all but the last \<open>i + 1\<close>
  components, so the sequence runs from the directory of the path up to its anchor.
\<close>

definition path_parents :: "path \<Rightarrow> path list" where
  "path_parents p =
     map (\<lambda>i. PosixPath (anchor p) (take (length (names p) - i - 1) (names p)))
       [0..<length (names p)]"

text \<open>\<^verbatim>\<open>path.name\<close>: the last component, or the empty string when there is none.\<close>

definition path_name :: "path \<Rightarrow> string" where
  "path_name p = (if names p = [] then [] else last (names p))"

text \<open>
  \<^verbatim>\<open>path.suffix\<close>: the part of the name from its last dot on, when that dot is neither
  the first nor the last character of the name.
\<close>

definition path_suffix :: "path \<Rightarrow> string" where
  "path_suffix p =
     (let name = path_name p; i = rfind name CHR ''.''
      in if 0 < i \<and> i < int (length name) - 1 then drop (nat i) name else [])"

subsection \<open>The file system\<close>

text \<open>
  What the module asks of the operating system: \<^verbatim>\<open>Path(s).resolve()\<close>, which gives the
  absolute, symlink-free form of \<open>s\<close> or raises, and \<^verbatim>\<open>path.exists()\<close>, which answers
  or raises. Both are parameters of the model.
\<close>

record filesystem =
  fs_resolve :: "string \<Rightarrow> exn + path"
  fs_exists :: "path \<Rightarrow> exn + bool"

text \<open>The calls that leave the module, in the order they are made.\<close>

datatype log_arg = ArgPath path | ArgCommand "string list" | ArgExn exn

datatype event =
    Resolve string
  | Exists path
  | LogInfo string "log_arg list"
  | LogError string "log_arg list"

subsection \<open>Models\<close>

record LanguageConfig =
  command :: "string list"
  extensions :: "string list"
  language_id :: string

record Diagnostic =
  message :: string
  severity :: int
  line :: int
  column :: int
  source :: "string option"

record ValidationResult =
  file_path :: string
  diagnostics :: "Diagnostic list"
  error :: "string option"

text \<open>The dictionary \<^verbatim>\<open>LANGUAGE_CONFIGS\<close>, as the list of its items.\<close>

definition LANGUAGE_CONFIGS :: "(string \<times> LanguageConfig) list" where
  "LANGUAGE_CONFIGS =
     [(''.ts'', \<lparr>command = [''typescript-language-server'', ''--stdio''],
                extensions = [''.ts'', ''.tsx''], language_id = ''typescript''\<rparr>),
      (''.tsx'', \<lparr>command = [''typescript-language-server'', ''--stdio''],
                 extensions = [''.ts'', ''.tsx''], language_id = ''typescriptreact''\<rparr>),
      (''.js'', \<lparr>command = [''typescript-language-server'', ''--stdio''],
                extensions = [''.js'', ''.jsx''], language_id = ''javascript''\<rparr>),
      (''.jsx'', \<lparr>command = [''typescript-language-server'', ''--stdio''],
                 extensions = [''.js'', ''.jsx''], language_id = ''javascriptreact''\<rparr>),
      (''.py'', \<lparr>command = [''pylsp''], extensions = [''.py''], language_id = ''python''\<rparr>),
      (''.zig'', \<lparr>command = [''zls''], extensions = [''.zig''], language_id = ''zig''\<rparr>)]"

subsection \<open>\<^verbatim>\<open>LanguageServer\<close>\<close>

text \<open>
  The object holds \<^verbatim>\<open>allowed_dirs\<close>, the directories of the command line after
  \<^verbatim>\<open>resolve()\<close>.
\<close>

record LanguageServer =
  allowed_dirs :: "path list"

text \<open>
  \<^verbatim>\<open>validate_path\<close>: resolve; raise unless some allowed directory is among the parents
  of the resolved path; raise unless the resolved path exists; return it.
\<close>

definition validate_path :: "LanguageServer \<Rightarrow> filesystem \<Rightarrow> string \<Rightarrow> (exn + path) \<times> event list" where
  "validate_path self fs fpath =
     (case fs_resolve fs fpath of
        Inl e \<Rightarrow> (Inl e, [Resolve fpath])
      | Inr p \<Rightarrow>
          if \<not> list_ex (\<lambda>allowed_dir. list_ex (\<lambda>parent. parent = allowed_dir) (path_parents p))
                 (allowed_dirs self)
          then (Inl (ValueError (''Path not in allowed directories: '' @ str_path p)),
                [Resolve fpath])
          else
            (case fs_exists fs p of
               Inl e \<Rightarrow> (Inl e, [Resolve fpath, Exists p])
             | Inr ex \<Rightarrow>
                 if \<not> ex
                 then (Inl (ValueError (''File does not exist: '' @ str_path p)),
                       [Resolve fpath, Exists p])
                 else (Inr p, [Resolve fpath, Exists p])))"

text \<open>The body of the \<^verbatim>\<open>try\<close> block of \<^verbatim>\<open>validate_file\<close>.\<close>

definition validate_file_try ::
  "LanguageServer \<Rightarrow> filesystem \<Rightarrow> string \<Rightarrow> (exn + ValidationResult) \<times> event list" where
  "validate_file_try self fs fpath =
     (case validate_path self fs fpath of
        (Inl e, evs) \<Rightarrow> (Inl e, evs)
      | (Inr p, evs) \<Rightarrow>
          (let ext = str_lower (path_suffix p) in
           case map_of LANGUAGE_CONFIGS ext of
             None \<Rightarrow>
               (Inr \<lparr>file_path = fpath, diagnostics = [],
                     error = Some (''Unsupported file type: '' @ ext)\<rparr>, evs)
           | Some config \<Rightarrow>
               (Inr \<lparr>file_path = fpath, diagnostics = [], error = None\<rparr>,
                evs @ [LogInfo ''Validating %s using %s'' [ArgPath p, ArgCommand (command config)]])))"

text \<open>
  \<^verbatim>\<open>validate_file\<close>: the \<^verbatim>\<open>try\<close> block, and the handler \<^verbatim>\<open>except Exception as e\<close>,
  which logs and returns a result carrying \<^verbatim>\<open>str(e)\<close>.
\<close>

definition validate_file ::
  "LanguageServer \<Rightarrow> filesystem \<Rightarrow> string \<Rightarrow> (exn + ValidationResult) \<times> event list" where
  "validate_file self fs fpath =
     (case validate_file_try self fs fpath of
        (Inl e, evs) \<Rightarrow>
          (Inr \<lparr>file_path = fpath, diagnostics = [], error = Some (str_exn e)\<rparr>,
           evs @ [LogError ''Validation failed: %s'' [ArgExn e]])
      | (Inr r, evs) \<Rightarrow> (Inr r, evs))"

subsection \<open>\<^verbatim>\<open>handle_call_tool\<close>\<close>

text \<open>
  The request: \<^verbatim>\<open>request.params.name\<close> and \<^verbatim>\<open>request.params.arguments\<close>, which is
  \<^verbatim>\<open>None\<close> or a dictionary, given as the list of its items. The tool's input schema
  declares \<^verbatim>\<open>file_path\<close> a string, and the values are strings here.
\<close>

record CallToolRequest =
  name :: string
  arguments :: "(string \<times> string) list option"

text \<open>The list literal the handler indexes with \<^verbatim>\<open>diag.severity - 1\<close>.\<close>

definition severity_labels :: "string list" where
  "severity_labels = [''Error'', ''Warning'', ''Info'', ''Hint'']"

text \<open>
  The bullet of the source file, as the bytes it has there.
\<close>

definition bullet :: string where
  "bullet = [CHR 0xC3, CHR 0xA2, CHR 0xE2, CHR 0x82, CHR 0xAC, CHR 0xC2, CHR 0xA2]"

text \<open>One round of the loop over \<^verbatim>\<open>result.diagnostics\<close>: the text appended for \<open>diag\<close>.\<close>

definition format_diagnostic :: "Diagnostic \<Rightarrow> exn + string" where
  "format_diagnostic diag =
     (case py_getitem severity_labels (severity diag - 1) of
        Inl e \<Rightarrow> Inl e
      | Inr sev \<Rightarrow>
          Inr (bullet @ '' '' @ sev @ '' at line '' @ str_int (line diag) @ '', column '' @
               str_int (column diag) @ '': '' @ message diag @ [CHR 0x0A] @
               (if truthy (source diag) then ''  Source: '' @ the (source diag) @ [CHR 0x0A]
                else [])))"

text \<open>The loop: it stops at the first diagnostic whose label lookup raises.\<close>

fun format_diagnostics :: "string \<Rightarrow> Diagnostic list \<Rightarrow> exn + string" where
  "format_diagnostics text [] = Inr text"
| "format_diagnostics text (diag # diags) =
     (case format_diagnostic diag of
        Inl e \<Rightarrow> Inl e
      | Inr t \<Rightarrow> format_diagnostics (text @ t) diags)"

text \<open>The text built from a result (lines 179 to 191).\<close>

definition format_result :: "ValidationResult \<Rightarrow> exn + string" where
  "format_result result =
     (let text = ''Validation results for '' @ file_path result @ '':'' @ [CHR 0x0A] in
      if truthy (error result) then Inr (text @ ''Error: '' @ the (error result) @ [CHR 0x0A])
      else if diagnostics result = [] then Inr (text @ ''No issues found'' @ [CHR 0x0A])
      else format_diagnostics (text @ [CHR 0x0A] @ ''Diagnostics:'' @ [CHR 0x0A])
             (diagnostics result))"

text \<open>
  The handler. Its value is the text of the single \<^verbatim>\<open>TextContent\<close> of the
  \<^verbatim>\<open>CallToolResult\<close> it returns, or the exception it raises.
\<close>

definition handle_call_tool ::
  "LanguageServer \<Rightarrow> filesystem \<Rightarrow> CallToolRequest \<Rightarrow> (exn + string) \<times> event list" where
  "handle_call_tool language_server fs request =
     (if name request \<noteq> ''validate''
      then (Inl (ValueError (''Unknown tool: '' @ name request)), [])
      else
        (case arguments request of
           None \<Rightarrow> (Inl (ValueError ''Missing required argument: file_path''), [])
         | Some args \<Rightarrow>
             if args = [] then (Inl (ValueError ''Missing required argument: file_path''), [])
             else
               (case map_of args ''file_path'' of
                  None \<Rightarrow> (Inl (ValueError ''Missing required argument: file_path''), [])
                | Some fpath \<Rightarrow>
                    (case validate_file language_server fs fpath of
                       (Inl e, evs) \<Rightarrow> (Inl e, evs)
                     | (Inr result, evs) \<Rightarrow> (format_result result, evs)))))"

subsection \<open>Containment, as the specification words it\<close>

text \<open>
  The specification authorizes a resolved path only when it is strictly
  nested under an allowed directory: a proper descendant, the directory itself excluded.
  On paths as anchor and components this is: the same anchor, and the directory's
  components a proper prefix of the path's. The definition follows these words; it is
  compared with the test on \<^verbatim>\<open>path.parents\<close> that \<^const>\<open>validate_path\<close> makes.
\<close>

definition strictly_nested_under :: "path \<Rightarrow> path \<Rightarrow> bool" where
  "strictly_nested_under d p \<longleftrightarrow> anchor d = anchor p \<and> strict_prefix (names d) (names p)"

subsection \<open>A small world for the examples\<close>

text \<open>
  The specification's example: the allowed directory \<^verbatim>\<open>/repo\<close>, holding
  \<^verbatim>\<open>src/a.py\<close>. The file system below knows a handful of path strings, none of them a
  symlink; \<^verbatim>\<open>src/missing.py\<close> and \<^verbatim>\<open>/etc/nope\<close> resolve but do not exist, and on any
  other string \<^verbatim>\<open>resolve()\<close> raises.
\<close>

definition example_fs :: filesystem where
  "example_fs =
     \<lparr>fs_resolve = (\<lambda>s.
        case map_of
          [(''/repo'', PosixPath ''/'' [''repo'']),
           (''/repo/src/a.py'', PosixPath ''/'' [''repo'', ''src'', ''a.py'']),
           (''/repo/src/B.PY'', PosixPath ''/'' [''repo'', ''src'', ''B.PY'']),
           (''/repo/README.md'', PosixPath ''/'' [''repo'', ''README.md'']),
           (''/repo/src/missing.py'', PosixPath ''/'' [''repo'', ''src'', ''missing.py'']),
           (''/etc/nope'', PosixPath ''/'' [''etc'', ''nope''])] s of
          Some p \<Rightarrow> Inr p
        | None \<Rightarrow> Inl (RuntimeError (''Symlink loop from '' @ s))),
      fs_exists = (\<lambda>p. Inr (List.member
          [PosixPath ''/'' [''repo''],
           PosixPath ''/'' [''repo'', ''src'', ''a.py''],
           PosixPath ''/'' [''repo'', ''src'', ''B.PY''],
           PosixPath ''/'' [''repo'', ''README.md'']] p))\<rparr>"

definition example_server :: LanguageServer where
  "example_server = \<lparr>allowed_dirs = [PosixPath ''/'' [''repo'']]\<rparr>"


text \<open>
  The example file system with every string resolving to \<^verbatim>\<open>/repo/src/a.py\<close>, as a
  relative spelling of that file does when the working directory is \<^verbatim>\<open>/repo\<close>.
\<close>

definition example_fs_in_repo :: filesystem where
  "example_fs_in_repo =
     example_fs\<lparr>fs_resolve := (\<lambda>s. Inr (PosixPath ''/'' [''repo'', ''src'', ''a.py'']))\<rparr>"

section \<open>Path authorization: \<^verbatim>\<open>validate_path\<close>\<close>

subsection \<open>The parents of a path are its strict ancestors\<close>

lemma strict_prefix_take_conv:
  "strict_prefix xs ys \<longleftrightarrow> (\<exists>i < length ys. xs = take (length ys - i - 1) ys)"
proof
  assume a: "strict_prefix xs ys"
  then have l: "length xs < length ys" by (rule prefix_length_less)
  from a obtain zs where "ys = xs @ zs" by (auto simp: strict_prefix_def prefix_def)
  then have "xs = take (length xs) ys" by simp
  moreover have "length ys - (length ys - length xs - 1) - 1 = length xs" using l by arith
  moreover have "length ys - length xs - 1 < length ys" using l by arith
  ultimately show "\<exists>i < length ys. xs = take (length ys - i - 1) ys" by metis
next
  assume "\<exists>i < length ys. xs = take (length ys - i - 1) ys"
  then obtain i where i: "i < length ys" and x: "xs = take (length ys - i - 1) ys" by blast
  have "prefix xs ys" unfolding x by (rule take_is_prefix)
  moreover have "length xs < length ys" unfolding x using i by simp
  ultimately show "strict_prefix xs ys" by (auto simp: strict_prefix_def)
qed

lemma in_path_parents_iff:
  "list_ex (\<lambda>parent. parent = d) (path_parents p) \<longleftrightarrow> strictly_nested_under d p"
proof -
  have "list_ex (\<lambda>parent. parent = d) (path_parents p) \<longleftrightarrow>
        (\<exists>i < length (names p). d = PosixPath (anchor p) (take (length (names p) - i - 1) (names p)))"
    by (auto simp: path_parents_def list_ex_iff)
  also have "\<dots> \<longleftrightarrow> anchor d = anchor p \<and>
        (\<exists>i < length (names p). names d = take (length (names p) - i - 1) (names p))"
    by (cases d) auto
  also have "\<dots> \<longleftrightarrow> strictly_nested_under d p"
    by (simp add: strictly_nested_under_def strict_prefix_take_conv)
  finally show ?thesis .
qed

lemma not_nested_self: "\<not> strictly_nested_under p p"
  by (simp add: strictly_nested_under_def)

subsection \<open>The two outcomes of the containment test\<close>

lemma validate_path_outside:
  assumes "fs_resolve fs fpath = Inr p"
    and "\<not> list_ex (\<lambda>d. strictly_nested_under d p) (allowed_dirs self)"
  shows "validate_path self fs fpath =
    (Inl (ValueError (''Path not in allowed directories: '' @ str_path p)), [Resolve fpath])"
  using assms by (simp add: validate_path_def in_path_parents_iff)

lemma validate_path_inside:
  assumes "fs_resolve fs fpath = Inr p"
    and "list_ex (\<lambda>d. strictly_nested_under d p) (allowed_dirs self)"
    and "fs_exists fs p = Inr ex"
  shows "validate_path self fs fpath =
    (if ex then Inr p else Inl (ValueError (''File does not exist: '' @ str_path p)),
     [Resolve fpath, Exists p])"
  using assms by (simp add: validate_path_def in_path_parents_iff)

text \<open>
  C3. Whenever the resolved form of the input is not strictly nested under any allowed
  directory, \<^verbatim>\<open>validate_path\<close> raises the \<^verbatim>\<open>ValueError\<close> "Path not in allowed
  directories" (the specification's NotAllowed). A path is never among its own parents,
  so a path that resolves to an allowed directory itself gains nothing from that
  directory: equality is not containment.
\<close>

theorem validate_path_not_allowed:
  assumes "fs_resolve fs fpath = Inr p"
    and "\<not> list_ex (\<lambda>d. strictly_nested_under d p) (allowed_dirs self)"
  shows "fst (validate_path self fs fpath) =
           Inl (ValueError (''Path not in allowed directories: '' @ str_path p))
         \<and> \<not> list_ex (\<lambda>parent. parent = p) (path_parents p)"
  using validate_path_outside [OF assms] by (simp add: in_path_parents_iff not_nested_self)

text \<open>The allowed directory \<^verbatim>\<open>/repo\<close> itself is refused.\<close>

theorem validate_path_not_allowed_witness:
  "fs_resolve example_fs ''/repo'' = Inr (PosixPath ''/'' [''repo''])
   \<and> List.member (allowed_dirs example_server) (PosixPath ''/'' [''repo''])
   \<and> fst (validate_path example_server example_fs ''/repo'') =
       Inl (ValueError ''Path not in allowed directories: /repo'')"
  using validate_path_not_allowed [of example_fs "''/repo''" "PosixPath ''/'' [''repo'']" example_server]
  by (simp add: example_fs_def example_server_def strictly_nested_under_def str_path_def)

text \<open>
  C4. Whenever the resolved form of the input is strictly nested under some allowed
  directory and exists, \<^verbatim>\<open>validate_path\<close> returns that resolved form, the value of
  \<^verbatim>\<open>Path(file_path).resolve()\<close>.
\<close>

theorem validate_path_authorized:
  assumes "fs_resolve fs fpath = Inr p"
    and "list_ex (\<lambda>d. strictly_nested_under d p) (allowed_dirs self)"
    and "fs_exists fs p = Inr True"
  shows "fst (validate_path self fs fpath) = Inr p"
  using validate_path_inside [OF assms] by simp

theorem validate_path_authorized_witness:
  "fst (validate_path example_server example_fs ''/repo/src/a.py'') =
     Inr (PosixPath ''/'' [''repo'', ''src'', ''a.py''])"
  using validate_path_authorized [of example_fs "''/repo/src/a.py''"
      "PosixPath ''/'' [''repo'', ''src'', ''a.py'']" example_server]
  by (simp add: example_fs_def example_server_def strictly_nested_under_def)

text \<open>
  C5, as stated: every path whose resolved form does not exist fails with the
  \<^verbatim>\<open>ValueError\<close> "File does not exist" (the specification's NotFound). The containment
  test runs first: \<^verbatim>\<open>/etc/nope\<close> does not exist and lies outside \<^verbatim>\<open>/repo\<close>, and the
  error is "Path not in allowed directories".
\<close>

theorem not_found_outside_counterexample:
  "fs_resolve example_fs ''/etc/nope'' = Inr (PosixPath ''/'' [''etc'', ''nope''])
   \<and> fs_exists example_fs (PosixPath ''/'' [''etc'', ''nope'']) = Inr False
   \<and> fst (validate_path example_server example_fs ''/etc/nope'') =
       Inl (ValueError ''Path not in allowed directories: /etc/nope'')
   \<and> fst (validate_path example_server example_fs ''/etc/nope'') \<noteq>
       Inl (ValueError (''File does not exist: '' @ str_path (PosixPath ''/'' [''etc'', ''nope''])))"
  by (simp add: validate_path_def example_fs_def example_server_def path_parents_def str_path_def)

text \<open>
  C5, amended: every path whose resolved form is strictly nested under some allowed
  directory and does not exist fails with the \<^verbatim>\<open>ValueError\<close> "File does not exist".
\<close>

theorem validate_path_not_found:
  assumes "fs_resolve fs fpath = Inr p"
    and "list_ex (\<lambda>d. strictly_nested_under d p) (allowed_dirs self)"
    and "fs_exists fs p = Inr False"
  shows "fst (validate_path self fs fpath) =
           Inl (ValueError (''File does not exist: '' @ str_path p))"
  using validate_path_inside [OF assms] by simp

theorem validate_path_not_found_witness:
  "fst (validate_path example_server example_fs ''/repo/src/missing.py'') =
     Inl (ValueError ''File does not exist: /repo/src/missing.py'')"
  using validate_path_not_found [of example_fs "''/repo/src/missing.py''"
      "PosixPath ''/'' [''repo'', ''src'', ''missing.py'']" example_server]
  by (simp add: example_fs_def example_server_def strictly_nested_under_def str_path_def)

section \<open>The orchestrator: \<^verbatim>\<open>validate_file\<close>\<close>

subsection \<open>Evaluations in the example world\<close>

lemma ex_path_etc: "validate_path example_server example_fs ''/etc/nope'' =
  (Inl (ValueError ''Path not in allowed directories: /etc/nope''), [Resolve ''/etc/nope''])"
  by (simp add: validate_path_def example_fs_def example_server_def path_parents_def str_path_def)

lemma ex_path_missing: "validate_path example_server example_fs ''/repo/src/missing.py'' =
  (Inl (ValueError ''File does not exist: /repo/src/missing.py''),
   [Resolve ''/repo/src/missing.py'', Exists (PosixPath ''/'' [''repo'', ''src'', ''missing.py''])])"
  by (simp add: validate_path_def example_fs_def example_server_def path_parents_def str_path_def)

lemma ex_path_loop: "validate_path example_server example_fs ''/repo/loop'' =
  (Inl (RuntimeError ''Symlink loop from /repo/loop''), [Resolve ''/repo/loop''])"
  by (simp add: validate_path_def example_fs_def example_server_def)

lemma ex_path_readme: "validate_path example_server example_fs ''/repo/README.md'' =
  (Inr (PosixPath ''/'' [''repo'', ''README.md'']),
   [Resolve ''/repo/README.md'', Exists (PosixPath ''/'' [''repo'', ''README.md''])])"
  by (simp add: validate_path_def example_fs_def example_server_def path_parents_def)


lemma ex_path_B: "validate_path example_server example_fs ''/repo/src/B.PY'' =
  (Inr (PosixPath ''/'' [''repo'', ''src'', ''B.PY'']),
   [Resolve ''/repo/src/B.PY'', Exists (PosixPath ''/'' [''repo'', ''src'', ''B.PY''])])"
  by (simp add: validate_path_def example_fs_def example_server_def path_parents_def)

lemma ex_path_rel: "validate_path example_server example_fs_in_repo ''src/../src/a.py'' =
  (Inr (PosixPath ''/'' [''repo'', ''src'', ''a.py'']),
   [Resolve ''src/../src/a.py'', Exists (PosixPath ''/'' [''repo'', ''src'', ''a.py''])])"
  by (simp add: validate_path_def example_fs_in_repo_def example_fs_def example_server_def
      path_parents_def)

lemma ex_suffix_readme: "str_lower (path_suffix (PosixPath ''/'' [''repo'', ''README.md''])) = ''.md''"
  by (simp add: path_suffix_def path_name_def rfind_def str_lower_def lower_char_def Let_def)

lemma ex_suffix_B: "path_suffix (PosixPath ''/'' [''repo'', ''src'', ''B.PY'']) = ''.PY''"
  by (simp add: path_suffix_def path_name_def rfind_def Let_def)

lemma ex_suffix_a: "path_suffix (PosixPath ''/'' [''repo'', ''src'', ''a.py'']) = ''.py''"
  by (simp add: path_suffix_def path_name_def rfind_def Let_def)

lemma lower_PY: "str_lower ''.PY'' = ''.py''" "str_lower ''.py'' = ''.py''"
  by (simp_all add: str_lower_def lower_char_def)

lemma config_py: "map_of LANGUAGE_CONFIGS ''.py'' =
   Some \<lparr>command = [''pylsp''], extensions = [''.py''], language_id = ''python''\<rparr>"
  by (simp add: LANGUAGE_CONFIGS_def)


subsection \<open>The result of \<^verbatim>\<open>validate_file\<close>, by the outcome of \<^verbatim>\<open>validate_path\<close>\<close>

text \<open>Every key of the table is its own lower-case form.\<close>

lemma keys_lower: "map_of LANGUAGE_CONFIGS e = Some c \<Longrightarrow> str_lower e = e"
  by (auto simp: LANGUAGE_CONFIGS_def str_lower_def lower_char_def split: if_splits)

lemma validate_file_of_path_error:
  assumes "fst (validate_path self fs fpath) = Inl e"
  shows "fst (validate_file self fs fpath) =
           Inr \<lparr>file_path = fpath, diagnostics = [], error = Some (str_exn e)\<rparr>"
  using assms by (cases "validate_path self fs fpath")
    (simp add: validate_file_def validate_file_try_def)

lemma validate_file_of_path_ok:
  assumes "fst (validate_path self fs fpath) = Inr p"
  shows "validate_file self fs fpath =
           (case map_of LANGUAGE_CONFIGS (str_lower (path_suffix p)) of
              None \<Rightarrow>
                (Inr \<lparr>file_path = fpath, diagnostics = [],
                      error = Some (''Unsupported file type: '' @ str_lower (path_suffix p))\<rparr>,
                 snd (validate_path self fs fpath))
            | Some config \<Rightarrow>
                (Inr \<lparr>file_path = fpath, diagnostics = [], error = None\<rparr>,
                 snd (validate_path self fs fpath) @
                   [LogInfo ''Validating %s using %s'' [ArgPath p, ArgCommand (command config)]]))"
  using assms by (cases "validate_path self fs fpath")
    (simp add: validate_file_def validate_file_try_def Let_def split: option.splits)

text \<open>Every call of \<^verbatim>\<open>validate_file\<close> reaches the file system: it resolves its input.\<close>

lemma validate_file_events: "snd (validate_file self fs fpath) \<noteq> []"
  by (auto simp: validate_file_def validate_file_try_def validate_path_def Let_def
      split: sum.splits option.splits prod.splits if_splits)

text \<open>
  In this revision \<^verbatim>\<open>validate_file\<close> starts no backend, and no result of it carries a
  diagnostic.
\<close>

lemma validate_file_no_diagnostics:
  "fst (validate_file self fs fpath) = Inr r \<Longrightarrow> diagnostics r = []"
  by (cases "fst (validate_path self fs fpath)")
    (auto simp: validate_file_of_path_error validate_file_of_path_ok split: option.splits)

text \<open>
  C2. For every input string, \<^verbatim>\<open>validate_file\<close> returns a \<^verbatim>\<open>ValidationResult\<close> and
  raises nothing. Whatever \<^verbatim>\<open>validate_path\<close> raises (path not allowed, file not found,
  or an exception of \<^verbatim>\<open>resolve()\<close> or \<^verbatim>\<open>exists()\<close>) is returned as the
  \<^verbatim>\<open>error\<close> field, with the text of the exception; an extension outside the table is
  returned as the error "Unsupported file type".
\<close>

theorem validate_file_never_raises:
  "(\<exists>r. fst (validate_file self fs fpath) = Inr r)
   \<and> (fst (validate_path self fs fpath) = Inl e \<longrightarrow>
        fst (validate_file self fs fpath) =
          Inr \<lparr>file_path = fpath, diagnostics = [], error = Some (str_exn e)\<rparr>)
   \<and> (fst (validate_path self fs fpath) = Inr p \<longrightarrow>
        map_of LANGUAGE_CONFIGS (str_lower (path_suffix p)) = None \<longrightarrow>
        fst (validate_file self fs fpath) =
          Inr \<lparr>file_path = fpath, diagnostics = [],
                error = Some (''Unsupported file type: '' @ str_lower (path_suffix p))\<rparr>)"
proof (intro conjI impI)
  show "\<exists>r. fst (validate_file self fs fpath) = Inr r"
  proof (cases "fst (validate_path self fs fpath)")
    case (Inl e')
    then show ?thesis by (simp add: validate_file_of_path_error)
  next
    case (Inr p')
    then show ?thesis by (simp add: validate_file_of_path_ok split: option.splits)
  qed
next
  assume "fst (validate_path self fs fpath) = Inl e"
  then show "fst (validate_file self fs fpath) =
      Inr \<lparr>file_path = fpath, diagnostics = [], error = Some (str_exn e)\<rparr>"
    by (rule validate_file_of_path_error)
next
  assume "fst (validate_path self fs fpath) = Inr p"
    and "map_of LANGUAGE_CONFIGS (str_lower (path_suffix p)) = None"
  then show "fst (validate_file self fs fpath) =
      Inr \<lparr>file_path = fpath, diagnostics = [],
            error = Some (''Unsupported file type: '' @ str_lower (path_suffix p))\<rparr>"
    by (simp add: validate_file_of_path_ok)
qed

text \<open>
  One input for each failure: outside the allowed directory, missing, an exception of
  \<^verbatim>\<open>resolve()\<close>, and an extension outside the table.
\<close>

theorem validate_file_never_raises_witness:
  "fst (validate_file example_server example_fs ''/etc/nope'') =
     Inr \<lparr>file_path = ''/etc/nope'', diagnostics = [],
           error = Some ''Path not in allowed directories: /etc/nope''\<rparr>
   \<and> fst (validate_file example_server example_fs ''/repo/src/missing.py'') =
     Inr \<lparr>file_path = ''/repo/src/missing.py'', diagnostics = [],
           error = Some ''File does not exist: /repo/src/missing.py''\<rparr>
   \<and> fst (validate_file example_server example_fs ''/repo/loop'') =
     Inr \<lparr>file_path = ''/repo/loop'', diagnostics = [],
           error = Some ''Symlink loop from /repo/loop''\<rparr>
   \<and> fst (validate_file example_server example_fs ''/repo/README.md'') =
     Inr \<lparr>file_path = ''/repo/README.md'', diagnostics = [],
           error = Some ''Unsupported file type: .md''\<rparr>"
  using
    validate_file_never_raises [of example_server example_fs "''/etc/nope''"
      "ValueError ''Path not in allowed directories: /etc/nope''"]
    validate_file_never_raises [of example_server example_fs "''/repo/src/missing.py''"
      "ValueError ''File does not exist: /repo/src/missing.py''"]
    validate_file_never_raises [of example_server example_fs "''/repo/loop''"
      "RuntimeError ''Symlink loop from /repo/loop''"]
    validate_file_never_raises [of example_server example_fs "''/repo/README.md''" _
      "PosixPath ''/'' [''repo'', ''README.md'']"]
  by (simp add: ex_path_etc ex_path_missing ex_path_loop ex_path_readme ex_suffix_readme
      LANGUAGE_CONFIGS_def)

text \<open>
  C6. For a file that \<^verbatim>\<open>validate_path\<close> accepts (authorized and existing) and whose
  extension, compared as the table is consulted (in lower case), is not a key of
  \<^verbatim>\<open>LANGUAGE_CONFIGS\<close>, the result of \<^verbatim>\<open>validate_file\<close> has no diagnostics and an
  \<^verbatim>\<open>error\<close> that is a non-empty string.
\<close>

theorem validate_file_unsupported:
  assumes "fst (validate_path self fs fpath) = Inr p"
    and "map_of LANGUAGE_CONFIGS (str_lower (path_suffix p)) = None"
  shows "fst (validate_file self fs fpath) =
           Inr \<lparr>file_path = fpath, diagnostics = [],
                 error = Some (''Unsupported file type: '' @ str_lower (path_suffix p))\<rparr>
         \<and> ''Unsupported file type: '' @ str_lower (path_suffix p) \<noteq> []"
  using assms by (simp add: validate_file_of_path_ok)

theorem validate_file_unsupported_witness:
  "fst (validate_path example_server example_fs ''/repo/README.md'') =
     Inr (PosixPath ''/'' [''repo'', ''README.md''])
   \<and> map_of LANGUAGE_CONFIGS ''.md'' = None
   \<and> fst (validate_file example_server example_fs ''/repo/README.md'') =
     Inr \<lparr>file_path = ''/repo/README.md'', diagnostics = [],
           error = Some ''Unsupported file type: .md''\<rparr>"
  using validate_file_unsupported [of example_server example_fs "''/repo/README.md''"
      "PosixPath ''/'' [''repo'', ''README.md'']"]
  by (simp add: ex_path_readme ex_suffix_readme LANGUAGE_CONFIGS_def)

text \<open>
  C7. The table is consulted without regard to letter case. When the extension of an
  accepted file and a key \<open>e\<close> of the table have the same lower-case form, the
  configuration \<^verbatim>\<open>validate_file\<close> selects is the one stored under \<open>e\<close>: the lookup
  with the lower-cased extension gives it, and its command is the one logged before the
  empty result is returned.
\<close>

theorem lookup_case_insensitive:
  assumes "map_of LANGUAGE_CONFIGS e = Some config"
    and "str_lower (path_suffix p) = str_lower e"
    and "fst (validate_path self fs fpath) = Inr p"
  shows "map_of LANGUAGE_CONFIGS (str_lower (path_suffix p)) = Some config
         \<and> validate_file self fs fpath =
             (Inr \<lparr>file_path = fpath, diagnostics = [], error = None\<rparr>,
              snd (validate_path self fs fpath) @
                [LogInfo ''Validating %s using %s'' [ArgPath p, ArgCommand (command config)]])"
proof -
  have "str_lower (path_suffix p) = e" using assms(1,2) by (simp add: keys_lower)
  then have c: "map_of LANGUAGE_CONFIGS (str_lower (path_suffix p)) = Some config"
    using assms(1) by simp
  then show ?thesis using assms(3) by (simp add: validate_file_of_path_ok)
qed

text \<open>\<^verbatim>\<open>B.PY\<close>: the extension \<^verbatim>\<open>.PY\<close> is no key, and the file is validated with \<^verbatim>\<open>pylsp\<close>.\<close>

theorem lookup_case_insensitive_witness:
  "path_suffix (PosixPath ''/'' [''repo'', ''src'', ''B.PY'']) = ''.PY''
   \<and> map_of LANGUAGE_CONFIGS ''.PY'' = None
   \<and> validate_file example_server example_fs ''/repo/src/B.PY'' =
       (Inr \<lparr>file_path = ''/repo/src/B.PY'', diagnostics = [], error = None\<rparr>,
        [Resolve ''/repo/src/B.PY'', Exists (PosixPath ''/'' [''repo'', ''src'', ''B.PY'']),
         LogInfo ''Validating %s using %s''
           [ArgPath (PosixPath ''/'' [''repo'', ''src'', ''B.PY'']), ArgCommand [''pylsp'']]])"
  using lookup_case_insensitive [of "''.py''"
      "\<lparr>command = [''pylsp''], extensions = [''.py''], language_id = ''python''\<rparr>"
      "PosixPath ''/'' [''repo'', ''src'', ''B.PY'']" example_server example_fs "''/repo/src/B.PY''"]
  by (simp add: ex_path_B ex_suffix_B lower_PY config_py) (simp add: LANGUAGE_CONFIGS_def)

text \<open>
  C8. For an existing file whose resolved form is strictly nested under an allowed
  directory and whose extension is in the table, \<^verbatim>\<open>validate_file\<close> returns the result
  with the given file path, no diagnostics and no error. (No backend is started in this
  revision, so none publishes a diagnostic.)
\<close>

theorem validate_file_clean:
  assumes "fs_resolve fs fpath = Inr p"
    and "list_ex (\<lambda>d. strictly_nested_under d p) (allowed_dirs self)"
    and "fs_exists fs p = Inr True"
    and "map_of LANGUAGE_CONFIGS (str_lower (path_suffix p)) = Some config"
  shows "fst (validate_file self fs fpath) =
           Inr \<lparr>file_path = fpath, diagnostics = [], error = None\<rparr>"
proof -
  have "fst (validate_path self fs fpath) = Inr p"
    using validate_path_inside [OF assms(1-3)] by simp
  then show ?thesis using assms(4) by (simp add: validate_file_of_path_ok)
qed

text \<open>The specification's example: \<^verbatim>\<open>/repo/src/a.py\<close> under \<^verbatim>\<open>/repo\<close>, with \<^verbatim>\<open>pylsp\<close>.\<close>

theorem validate_file_clean_witness:
  "allowed_dirs example_server = [PosixPath ''/'' [''repo'']]
   \<and> fs_exists example_fs (PosixPath ''/'' [''repo'', ''src'', ''a.py'']) = Inr True
   \<and> map_of LANGUAGE_CONFIGS ''.py'' =
       Some \<lparr>command = [''pylsp''], extensions = [''.py''], language_id = ''python''\<rparr>
   \<and> fst (validate_file example_server example_fs ''/repo/src/a.py'') =
       Inr \<lparr>file_path = ''/repo/src/a.py'', diagnostics = [], error = None\<rparr>"
  using validate_file_clean [of example_fs "''/repo/src/a.py''"
      "PosixPath ''/'' [''repo'', ''src'', ''a.py'']" example_server
      "\<lparr>command = [''pylsp''], extensions = [''.py''], language_id = ''python''\<rparr>"]
  by (simp add: ex_suffix_a lower_PY config_py)
     (simp add: example_fs_def example_server_def strictly_nested_under_def)

text \<open>
  C10. Whatever the outcome, the \<^verbatim>\<open>file_path\<close> of the result of \<^verbatim>\<open>validate_file\<close> is
  the input string as given, not its resolved form.
\<close>

theorem validate_file_keeps_file_path:
  "\<exists>r. fst (validate_file self fs fpath) = Inr r \<and> file_path r = fpath"
proof (cases "fst (validate_path self fs fpath)")
  case (Inl e)
  then show ?thesis by (simp add: validate_file_of_path_error)
next
  case (Inr p)
  then show ?thesis by (simp add: validate_file_of_path_ok split: option.splits)
qed

text \<open>A relative spelling that resolves to \<^verbatim>\<open>/repo/src/a.py\<close> is returned as spelled.\<close>

theorem validate_file_keeps_file_path_witness:
  "fs_resolve example_fs_in_repo ''src/../src/a.py'' = Inr (PosixPath ''/'' [''repo'', ''src'', ''a.py''])
   \<and> fst (validate_file example_server example_fs_in_repo ''src/../src/a.py'') =
     Inr \<lparr>file_path = ''src/../src/a.py'', diagnostics = [], error = None\<rparr>"
  using validate_file_keeps_file_path [of example_server example_fs_in_repo "''src/../src/a.py''"]
  by (simp add: validate_file_of_path_ok ex_path_rel ex_suffix_a lower_PY config_py)
     (simp add: example_fs_in_repo_def)

section \<open>The tool handler\<close>

text \<open>
  C9. A call of the tool \<^verbatim>\<open>validate\<close> whose arguments are absent, or a dictionary
  without the key \<^verbatim>\<open>file_path\<close>, raises the \<^verbatim>\<open>ValueError\<close> "Missing required argument:
  file_path" and makes no call at all to the file system or the logger, whereas every
  call of \<^verbatim>\<open>validate_file\<close> makes one: the handler stops before \<^verbatim>\<open>validate_file\<close>.
\<close>

theorem handle_call_tool_missing_argument:
  assumes "name request = ''validate''"
    and "arguments request = None
         \<or> (\<exists>args. arguments request = Some args \<and> map_of args ''file_path'' = None)"
  shows "handle_call_tool language_server fs request =
           (Inl (ValueError ''Missing required argument: file_path''), [])
         \<and> snd (validate_file language_server fs fpath) \<noteq> []"
  using assms by (auto simp: handle_call_tool_def validate_file_events)

text \<open>No arguments, an empty dictionary, and a dictionary with another key.\<close>

theorem handle_call_tool_missing_argument_witness:
  "handle_call_tool example_server example_fs \<lparr>name = ''validate'', arguments = None\<rparr> =
     (Inl (ValueError ''Missing required argument: file_path''), [])
   \<and> handle_call_tool example_server example_fs \<lparr>name = ''validate'', arguments = Some []\<rparr> =
     (Inl (ValueError ''Missing required argument: file_path''), [])
   \<and> handle_call_tool example_server example_fs
       \<lparr>name = ''validate'', arguments = Some [(''path'', ''/repo/src/a.py'')]\<rparr> =
     (Inl (ValueError ''Missing required argument: file_path''), [])"
  using
    handle_call_tool_missing_argument [of "\<lparr>name = ''validate'', arguments = None\<rparr>"
      example_server example_fs]
    handle_call_tool_missing_argument [of "\<lparr>name = ''validate'', arguments = Some []\<rparr>"
      example_server example_fs]
    handle_call_tool_missing_argument
      [of "\<lparr>name = ''validate'', arguments = Some [(''path'', ''/repo/src/a.py'')]\<rparr>"
      example_server example_fs]
  by simp

subsection \<open>What the handler can be given to format\<close>









end
